theory Spec2Isabelle
  imports Complex_Main "HOL-Library.AList"
begin

section \<open>Python values, exceptions and dictionaries\<close>

text \<open>
  The fraud-scoring service (\<^verbatim>\<open>src/ml/serve_model.py\<close>) and its trainer
  (\<^verbatim>\<open>src/ml/train_model.py\<close>) are embedded as HOL functions.

  \<^item> A Python \<^verbatim>\<open>dict\<close> is an association list; \<^verbatim>\<open>k in d\<close> and \<^verbatim>\<open>d.get(k, v)\<close> are
    \<open>map_of d k\<close>, \<^verbatim>\<open>d[k] = v\<close> is \<open>AList.update k v d\<close> (a key that is already there keeps
    its position, as in Python), \<^verbatim>\<open>len(d)\<close> is \<open>length d\<close> and \<^verbatim>\<open>list(d.keys())\<close> is
    \<open>map fst d\<close>.
  \<^item> Python floats are idealised as the reals: \<^verbatim>\<open>np.mean\<close>, the comparisons with
    \<^verbatim>\<open>0.5\<close> and \<^verbatim>\<open>0.8\<close> and the product with \<^verbatim>\<open>100\<close> are exact.
  \<^item> Every exception the code can raise is a value of the type \<open>error\<close>.
\<close>

datatype error =
    AttributeError string
  | KeyError string
  | JSONDecodeError
  | UnpicklingError

type_synonym vector = "real list"

text \<open>
  A fitted, unpickled object. The classifier libraries are opaque capabilities: a
  classifier offers \<^verbatim>\<open>predict_proba\<close>, whose first row is the pair
  \<open>(P(class 0), P(class 1))\<close>; an isolation forest offers \<^verbatim>\<open>decision_function\<close> and
  \<^verbatim>\<open>predict\<close> (first element of each); a scaler offers \<^verbatim>\<open>transform\<close>. Calling a
  method an object does not have raises \<^verbatim>\<open>AttributeError\<close>.
\<close>

datatype artifact =
    Classifier "vector \<Rightarrow> real \<times> real"
  | Detector "vector \<Rightarrow> real" "vector \<Rightarrow> int"
  | Scaler "vector \<Rightarrow> vector"

fun predict_proba :: "artifact \<Rightarrow> vector \<Rightarrow> error + real \<times> real" where
  "predict_proba (Classifier f) x = Inr (f x)"
| "predict_proba (Detector d p) x = Inl (AttributeError ''predict_proba'')"
| "predict_proba (Scaler t) x = Inl (AttributeError ''predict_proba'')"

text \<open>
  Lines 98-99 call \<^verbatim>\<open>decision_function\<close> first and \<^verbatim>\<open>predict\<close> second on the same
  object, so an object without \<^verbatim>\<open>decision_function\<close> fails at the first call.
\<close>

fun decision_and_label :: "artifact \<Rightarrow> vector \<Rightarrow> error + real \<times> int" where
  "decision_and_label (Detector d p) x = Inr (d x, p x)"
| "decision_and_label (Classifier f) x = Inl (AttributeError ''decision_function'')"
| "decision_and_label (Scaler t) x = Inl (AttributeError ''decision_function'')"

fun transform :: "artifact \<Rightarrow> vector \<Rightarrow> error + vector" where
  "transform (Scaler t) x = Inr (t x)"
| "transform (Classifier f) x = Inl (AttributeError ''transform'')"
| "transform (Detector d p) x = Inl (AttributeError ''transform'')"

text \<open>
  \<^verbatim>\<open>str.replace(old, new)\<close>: every non-overlapping occurrence of \<open>old\<close>, scanned from
  the left, is replaced; an empty \<open>old\<close> matches before every character and at the end.
\<close>

function str_replace :: "string \<Rightarrow> string \<Rightarrow> string \<Rightarrow> string" where
  "str_replace old new s =
     (if old = [] then new @ concat (map (\<lambda>c. c # new) s)
      else if s = [] then []
      else if take (length old) s = old
        then new @ str_replace old new (drop (length old) s)
      else hd s # str_replace old new (tl s))"
  by pat_completeness auto
termination
  by (relation "measure (\<lambda>(old, new, s). length s)") auto

declare str_replace.simps [simp del]

section \<open>The artifact store\<close>

text \<open>
  The \<^verbatim>\<open>metadata.json\<close> object: each of its three keys may be missing; the service's
  initial \<^verbatim>\<open>self.metadata = {}\<close> has none of them.
\<close>

record metadata =
  md_feature_names :: "string list option"
  md_training_date :: "string option"
  md_model_versions :: "string list option"

definition empty_metadata :: metadata where
  "empty_metadata =
     \<lparr>md_feature_names = None, md_training_date = None, md_model_versions = None\<rparr>"

text \<open>
  A file of the models directory holds JSON, a pickled object, or bytes neither loader
  accepts. The directory is the list of its files by name; a directory that does not
  exist is \<open>None\<close>.
\<close>

datatype file_content = Json metadata | Pickle artifact | Corrupt

type_synonym directory = "(string \<times> file_content) list"

fun json_load :: "file_content \<Rightarrow> error + metadata" where
  "json_load (Json m) = Inr m"
| "json_load (Pickle a) = Inl JSONDecodeError"
| "json_load Corrupt = Inl JSONDecodeError"

fun pickle_load :: "file_content \<Rightarrow> error + artifact" where
  "pickle_load (Pickle a) = Inr a"
| "pickle_load (Json m) = Inl UnpicklingError"
| "pickle_load Corrupt = Inl UnpicklingError"

record service =
  models :: "(string \<times> artifact) list"
  scalers :: "(string \<times> artifact) list"
  feature_names :: "string list"
  metadata :: metadata
  models_dir :: string

text \<open>
  \<^verbatim>\<open>load_models\<close> mutates \<^verbatim>\<open>self\<close> in place, so an exception leaves the assignments
  made before it: every step returns the exception, if any, and the state reached.
\<close>

text \<open>Lines 27-31.\<close>

definition load_metadata :: "directory \<Rightarrow> service \<Rightarrow> error option \<times> service" where
  "load_metadata d s =
     (case map_of d ''metadata.json'' of
        None \<Rightarrow> (None, s)
      | Some f \<Rightarrow>
          (case json_load f of
             Inl e \<Rightarrow> (Some e, s)
           | Inr m \<Rightarrow>
               (None, s\<lparr>metadata := m,
                        feature_names := (case md_feature_names m of
                                            None \<Rightarrow> [] | Some ns \<Rightarrow> ns)\<rparr>)))"

text \<open>Line 33.\<close>

definition model_files :: "string list" where
  "model_files = [''random_forest.pkl'', ''xgboost.pkl'', ''isolation_forest.pkl'']"

text \<open>Line 37: \<^verbatim>\<open>model_name = model_file.replace(',pkl', '')\<close>.\<close>

definition model_name :: "string \<Rightarrow> string" where
  "model_name model_file = str_replace '',pkl'' [] model_file"

text \<open>Lines 34-40.\<close>

fun load_model_files :: "directory \<Rightarrow> string list \<Rightarrow> service \<Rightarrow> error option \<times> service" where
  "load_model_files d [] s = (None, s)"
| "load_model_files d (model_file # rest) s =
     (case map_of d model_file of
        None \<Rightarrow> load_model_files d rest s
      | Some f \<Rightarrow>
          (case pickle_load f of
             Inl e \<Rightarrow> (Some e, s)
           | Inr m \<Rightarrow>
               load_model_files d rest
                 (s\<lparr>models := AList.update (model_name model_file) m (models s)\<rparr>)))"

text \<open>Lines 42-46.\<close>

definition load_scaler :: "directory \<Rightarrow> service \<Rightarrow> error option \<times> service" where
  "load_scaler d s =
     (case map_of d ''standard_scaler.pkl'' of
        None \<Rightarrow> (None, s)
      | Some f \<Rightarrow>
          (case pickle_load f of
             Inl e \<Rightarrow> (Some e, s)
           | Inr sc \<Rightarrow> (None, s\<lparr>scalers := AList.update ''standard'' sc (scalers s)\<rparr>)))"

text \<open>Lines 22-48.\<close>

definition load_models :: "directory option \<Rightarrow> service \<Rightarrow> error option \<times> service" where
  "load_models disk s =
     (case disk of
        None \<Rightarrow> (None, s)
      | Some d \<Rightarrow>
          (case load_metadata d s of
             (Some e, s1) \<Rightarrow> (Some e, s1)
           | (None, s1) \<Rightarrow>
               (case load_model_files d model_files s1 of
                  (Some e, s2) \<Rightarrow> (Some e, s2)
                | (None, s2) \<Rightarrow> load_scaler d s2)))"

text \<open>Lines 14-20: the constructor; an exception of \<^verbatim>\<open>load_models\<close> leaves no object.\<close>

definition fresh :: "string \<Rightarrow> service" where
  "fresh dir =
     \<lparr>models = [], scalers = [], feature_names = [], metadata = empty_metadata,
      models_dir = dir\<rparr>"

definition init :: "string \<Rightarrow> directory option \<Rightarrow> error + service" where
  "init dir disk =
     (case load_models disk (fresh dir) of
        (Some e, s) \<Rightarrow> Inl e
      | (None, s) \<Rightarrow> Inr s)"

text \<open>
  Lines 198-213, the \<^verbatim>\<open>/reload\<close> route: the answer is either \<^verbatim>\<open>models_loaded\<close> or the
  caught exception (status 500); the service keeps the state \<^verbatim>\<open>load_models\<close> reached.
\<close>

datatype reload_response = Reloaded nat | ReloadFailed error

definition reload_models :: "directory option \<Rightarrow> service \<Rightarrow> reload_response \<times> service" where
  "reload_models disk s =
     (case load_models disk s of
        (Some e, s') \<Rightarrow> (ReloadFailed e, s')
      | (None, s') \<Rightarrow> (Reloaded (length (models s')), s'))"

section \<open>Feature extraction\<close>

text \<open>A transaction is the JSON object of the request: feature name to number.\<close>

type_synonym transaction = "(string \<times> real) list"

text \<open>\<^verbatim>\<open>transaction_data.get(name, default)\<close>.\<close>

definition get_default :: "transaction \<Rightarrow> string \<Rightarrow> real \<Rightarrow> real" where
  "get_default td name dflt = (case map_of td name of None \<Rightarrow> dflt | Some v \<Rightarrow> v)"

text \<open>Lines 50-66: the dictionary \<^verbatim>\<open>features\<close>.\<close>

definition features :: "transaction \<Rightarrow> (string \<times> real) list" where
  "features td =
     [(''amount'', get_default td ''amount'' 0),
      (''hour'', get_default td ''hour'' 12),
      (''day_of_week'', get_default td ''day_of_week'' 0),
      (''is_weekend'', get_default td ''is_weekend'' 0),
      (''is_night'', get_default td ''is_night'' 0),
      (''amount_z_score'', get_default td ''amount_z_score'' 0),
      (''time_diff_minutes'', get_default td ''time_diff_minutes'' 60),
      (''has_location'', get_default td ''has_location'' 1),
      (''user_risk_score'', get_default td ''user_risk_score'' 20),
      (''user_avg_amount'', get_default td ''user_avg_amount'' 100),
      (''user_amount_std'', get_default td ''user_amount_std'' 50),
      (''user_txn_count'', get_default td ''user_txn_count'' 10),
      (''merchant_fraud_rate'', get_default td ''merchant_fraud_rate'' (2 / 100)),
      (''merchant_category_encoded'', get_default td ''merchant_category_encoded'' 0),
      (''merchant_risk_encoded'', get_default td ''merchant_risk_encoded'' 0)]"

text \<open>
  Line 68: \<^verbatim>\<open>[features[name] for name in self.feature_names]\<close>; the first name that is
  not a key of \<^verbatim>\<open>features\<close> raises \<^verbatim>\<open>KeyError\<close>.
\<close>

fun feature_vector :: "string list \<Rightarrow> (string \<times> real) list \<Rightarrow> error + vector" where
  "feature_vector [] fs = Inr []"
| "feature_vector (name # names) fs =
     (case map_of fs name of
        None \<Rightarrow> Inl (KeyError name)
      | Some v \<Rightarrow>
          (case feature_vector names fs of
             Inl e \<Rightarrow> Inl e
           | Inr vs \<Rightarrow> Inr (v # vs)))"

text \<open>
  A method call \<^verbatim>\<open>np.array(v).<name>(1, -1)\<close> on a numpy array. Of the array's methods
  only \<^verbatim>\<open>reshape\<close> is modelled: it returns the one row. Any other name is looked up in
  vain and raises \<^verbatim>\<open>AttributeError\<close>.
\<close>

definition ndarray_call :: "string \<Rightarrow> vector \<Rightarrow> error + vector" where
  "ndarray_call name v =
     (if name = ''reshape'' then Inr v else Inl (AttributeError name))"

text \<open>Lines 49-69; line 69 is \<^verbatim>\<open>np.array(feature_vector).resape(1, -1)\<close>.\<close>

definition extract_features :: "service \<Rightarrow> transaction \<Rightarrow> error + vector" where
  "extract_features s td =
     (case feature_vector (feature_names s) (features td) of
        Inl e \<Rightarrow> Inl e
      | Inr v \<Rightarrow> ndarray_call ''resape'' v)"

section \<open>Scaling, per-model prediction and risk aggregation\<close>

text \<open>Lines 79-82.\<close>

definition scale :: "(string \<times> artifact) list \<Rightarrow> vector \<Rightarrow> error + vector" where
  "scale scs x =
     (case map_of scs ''standard'' of
        Some sc \<Rightarrow> transform sc x
      | None \<Rightarrow> Inr x)"

text \<open>
  The dictionary \<^verbatim>\<open>predictions\<close> is local to \<^verbatim>\<open>predict_fraud\<close>. It only ever receives
  the three keys below, in this order, each with its own fixed shape, so it is a record
  of three optional entries; \<open>None\<close> is an absent key.
\<close>

record prob_entry =
  fraud_probability :: real
  prediction :: int

record anomaly_entry =
  anomaly_score :: real
  is_anomaly :: int

record predictions =
  random_forest :: "prob_entry option"
  xgboost :: "prob_entry option"
  isolation_forest :: "anomaly_entry option"

definition no_predictions :: predictions where
  "no_predictions = \<lparr>random_forest = None, xgboost = None, isolation_forest = None\<rparr>"

text \<open>\<^verbatim>\<open>list(predictions.keys())\<close>, in insertion order.\<close>

definition keys :: "predictions \<Rightarrow> string list" where
  "keys p =
     (if random_forest p \<noteq> None then [''random_forest''] else []) @
     (if xgboost p \<noteq> None then [''xgboost''] else []) @
     (if isolation_forest p \<noteq> None then [''isolation_forest''] else [])"

text \<open>Lines 86-90 and 92-96: the entry of a probability-emitting model.\<close>

definition prob_prediction :: "artifact \<Rightarrow> vector \<Rightarrow> error + prob_entry" where
  "prob_prediction m x =
     (case predict_proba m x of
        Inl e \<Rightarrow> Inl e
      | Inr proba \<Rightarrow>
          Inr \<lparr>fraud_probability = snd proba,
               prediction = (if snd proba > 5 / 10 then 1 else 0)\<rparr>)"

text \<open>Lines 98-103: the entry of the isolation forest.\<close>

definition anomaly_prediction :: "artifact \<Rightarrow> vector \<Rightarrow> error + anomaly_entry" where
  "anomaly_prediction m x =
     (case decision_and_label m x of
        Inl e \<Rightarrow> Inl e
      | Inr (iso_score, iso_pred) \<Rightarrow>
          Inr \<lparr>anomaly_score = iso_score,
               is_anomaly = (if iso_pred = - 1 then 1 else 0)\<rparr>)"

text \<open>\<^verbatim>\<open>if name in self.models: predictions[name] = ...\<close> for one model name.\<close>

definition when_loaded ::
  "(string \<times> artifact) list \<Rightarrow> string \<Rightarrow> (artifact \<Rightarrow> error + 'e) \<Rightarrow> error + 'e option" where
  "when_loaded ms name f =
     (case map_of ms name of
        None \<Rightarrow> Inr None
      | Some m \<Rightarrow> (case f m of Inl e \<Rightarrow> Inl e | Inr entry \<Rightarrow> Inr (Some entry)))"

text \<open>Lines 84-103.\<close>

definition predict_models :: "(string \<times> artifact) list \<Rightarrow> vector \<Rightarrow> error + predictions" where
  "predict_models ms x =
     (case when_loaded ms ''random_forest'' (\<lambda>m. prob_prediction m x) of
        Inl e \<Rightarrow> Inl e
      | Inr rf_entry \<Rightarrow>
          (case when_loaded ms ''xgboost'' (\<lambda>m. prob_prediction m x) of
             Inl e \<Rightarrow> Inl e
           | Inr xgb_entry \<Rightarrow>
               (case when_loaded ms ''isolation_forest'' (\<lambda>m. anomaly_prediction m x) of
                  Inl e \<Rightarrow> Inl e
                | Inr iso_entry \<Rightarrow>
                    Inr \<lparr>random_forest = rf_entry, xgboost = xgb_entry,
                         isolation_forest = iso_entry\<rparr>)))"

text \<open>Lines 105-109.\<close>

definition fraud_scores :: "predictions \<Rightarrow> real list" where
  "fraud_scores p =
     (case random_forest p of None \<Rightarrow> [] | Some e \<Rightarrow> [fraud_probability e]) @
     (case xgboost p of None \<Rightarrow> [] | Some e \<Rightarrow> [fraud_probability e])"

text \<open>Line 111: \<^verbatim>\<open>np.mean(fraud_scores) if fraud_scores else 0\<close>.\<close>

definition ensemble_score :: "real list \<Rightarrow> real" where
  "ensemble_score scores =
     (if scores \<noteq> [] then sum_list scores / real (length scores) else 0)"

datatype risk = LOW | MEDIUM | HIGH

datatype action = ALLOW | REVIEW | BLOCK

text \<open>Lines 113-121.\<close>

definition risk_tier :: "real \<Rightarrow> risk \<times> action" where
  "risk_tier score =
     (if score \<ge> 8 / 10 then (HIGH, BLOCK)
      else if score \<ge> 5 / 10 then (MEDIUM, REVIEW)
      else (LOW, ALLOW))"

record result =
  fraud_score :: real
  risk_level :: risk
  action :: action
  model_predictions :: predictions
  feature_count :: nat
  models_used :: "string list"

text \<open>Lines 105-130: everything \<^verbatim>\<open>predict_fraud\<close> does once \<^verbatim>\<open>predictions\<close> is built.\<close>

definition aggregate :: "nat \<Rightarrow> predictions \<Rightarrow> result" where
  "aggregate n p =
     (let score = ensemble_score (fraud_scores p) in
      \<lparr>fraud_score = score * 100,
       risk_level = fst (risk_tier score),
       action = snd (risk_tier score),
       model_predictions = p,
       feature_count = n,
       models_used = keys p\<rparr>)"

text \<open>
  What \<^verbatim>\<open>predict_fraud\<close> returns: the dictionary of lines 73-77 (error text, fraud score,
  model predictions) or the one of lines 123-130.
\<close>

datatype response = NoModels string real predictions | Scored result

definition no_models_response :: response where
  "no_models_response =
     NoModels ''No models loaded. Please train models first'' 0 no_predictions"

text \<open>Lines 71-130.\<close>

definition predict_fraud :: "service \<Rightarrow> transaction \<Rightarrow> error + response" where
  "predict_fraud s td =
     (if models s = [] then Inr no_models_response
      else
        (case extract_features s td of
           Inl e \<Rightarrow> Inl e
         | Inr x \<Rightarrow>
             (case scale (scalers s) x of
                Inl e \<Rightarrow> Inl e
              | Inr features_scaled \<Rightarrow>
                  (case predict_models (models s) features_scaled of
                     Inl e \<Rightarrow> Inl e
                   | Inr p \<Rightarrow>
                       Inr (Scored (aggregate (length (feature_names s)) p))))))"

section \<open>The trainer\<close>

record trainer =
  t_models :: "(string \<times> artifact) list"
  t_scalers :: "(string \<times> artifact) list"
  t_feature_names :: "string list"

text \<open>Lines 85-90 of \<^verbatim>\<open>train_model.py\<close>.\<close>

definition feature_columns :: "string list" where
  "feature_columns =
     [''amount'', ''hour'', ''day_of_week'', ''is_weekend'', ''is_night'',
      ''amount_z_score'', ''time_diff_minutes'', ''has_locations'',
      ''user_risk_score'', ''user_avg_amount'', ''user_amount_std'', ''user_txn_amount'',
      ''merchant_fraud_rate'', ''merchant_category_encoded'', ''merchant_risk_encoded'']"

text \<open>
  Lines 84-96. Of the data frame only its column labels matter here: selecting a label
  the frame does not have raises \<^verbatim>\<open>KeyError\<close> (reported here with the first such label).
\<close>

definition prepare_features :: "string list \<Rightarrow> trainer \<Rightarrow> error + trainer" where
  "prepare_features df_columns t =
     (case filter (\<lambda>c. c \<notin> set df_columns) (feature_columns @ [''is_fraud'']) of
        c # cs \<Rightarrow> Inl (KeyError c)
      | [] \<Rightarrow> Inr (t\<lparr>t_feature_names := feature_columns\<rparr>))"

text \<open>Lines 179-186: the metadata file, written with the time of the run.\<close>

definition write_metadata :: "string \<Rightarrow> trainer \<Rightarrow> directory \<Rightarrow> directory" where
  "write_metadata now t d =
     AList.update ''metadata.json''
       (Json \<lparr>md_feature_names = Some (t_feature_names t),
              md_training_date = Some now,
              md_model_versions = Some (map fst (t_models t))\<rparr>) d"

text \<open>Lines 168-172.\<close>

fun write_models :: "(string \<times> artifact) list \<Rightarrow> directory \<Rightarrow> directory" where
  "write_models [] d = d"
| "write_models ((name, m) # rest) d =
     write_models rest (AList.update (name @ ''.pkl'') (Pickle m) d)"

text \<open>
  A method call on a \<^verbatim>\<open>dict\<close>. Of its methods only \<^verbatim>\<open>items\<close> is modelled; any
  other name raises \<^verbatim>\<open>AttributeError\<close>.
\<close>

definition dict_call :: "string \<Rightarrow> ('k \<times> 'v) list \<Rightarrow> error + ('k \<times> 'v) list" where
  "dict_call name d = (if name = ''items'' then Inr d else Inl (AttributeError name))"

text \<open>Lines 175-177.\<close>

fun write_scalers :: "(string \<times> artifact) list \<Rightarrow> directory \<Rightarrow> directory" where
  "write_scalers [] d = d"
| "write_scalers ((name, sc) # rest) d =
     write_scalers rest (AList.update (name @ ''_scaler.pkl'') (Pickle sc) d)"

text \<open>
  Lines 165-186. Line 174 iterates over \<^verbatim>\<open>self.scalers.item()\<close>, so the call raises
  after the model files are written and before the scalers and the metadata are.
\<close>

definition save_models :: "string \<Rightarrow> trainer \<Rightarrow> directory option \<Rightarrow> error option \<times> directory" where
  "save_models now t disk =
     (let d0 = (case disk of None \<Rightarrow> [] | Some d \<Rightarrow> d);
          d1 = write_models (t_models t) d0
      in case dict_call ''item'' (t_scalers t) of
           Inl e \<Rightarrow> (Some e, d1)
         | Inr scs \<Rightarrow> (None, write_metadata now t (write_scalers scs d1)))"

section \<open>Stub artifacts and example states\<close>

text \<open>
  A classifier that answers the same probability for every vector, and an isolation
  forest that answers the same decision value and label.
\<close>

definition stub_classifier :: "real \<Rightarrow> artifact" where
  "stub_classifier p = Classifier (\<lambda>x. (1 - p, p))"

definition stub_detector :: "real \<Rightarrow> int \<Rightarrow> artifact" where
  "stub_detector score label = Detector (\<lambda>x. score) (\<lambda>x. label)"

text \<open>
  The service after its constructor ran on a directory that holds the single file
  \<^verbatim>\<open>random_forest.pkl\<close> and no metadata.
\<close>

definition only_forest_loaded :: service where
  "only_forest_loaded =
     \<lparr>models = [(''random_forest.pkl'', stub_classifier (9 / 10))], scalers = [],
      feature_names = [], metadata = empty_metadata, models_dir = ''models''\<rparr>"

text \<open>The \<^verbatim>\<open>predictions\<close> with the single entry of a random forest that answered \<open>q\<close>.\<close>

definition only_rf :: "real \<Rightarrow> predictions" where
  "only_rf q =
     \<lparr>random_forest = Some \<lparr>fraud_probability = q, prediction = (if q > 5 / 10 then 1 else 0)\<rparr>,
      xgboost = None, isolation_forest = None\<rparr>"

text \<open>
  Every file of the directory that \<^verbatim>\<open>load_models\<close> opens is one its loader accepts.
\<close>

definition loadable :: "directory \<Rightarrow> bool" where
  "loadable d =
     (list_all (\<lambda>name. case map_of d name of
                         None \<Rightarrow> True
                       | Some f \<Rightarrow> \<not> isl (pickle_load f))
        (model_files @ [''standard_scaler.pkl''])
      \<and> (case map_of d ''metadata.json'' of
            None \<Rightarrow> True
          | Some f \<Rightarrow> \<not> isl (json_load f)))"

text \<open>A scaler that leaves the vector as it is.\<close>

definition stub_scaler :: artifact where
  "stub_scaler = Scaler (\<lambda>x. x)"

text \<open>
  A service that holds a random forest, a scaler and a one-name schema, and a directory
  that holds an xgboost file and a metadata file only.
\<close>

definition forest_and_scaler_loaded :: service where
  "forest_and_scaler_loaded =
     \<lparr>models = [(''random_forest.pkl'', stub_classifier (9 / 10))],
      scalers = [(''standard'', stub_scaler)],
      feature_names = [''amount''],
      metadata = \<lparr>md_feature_names = Some [''amount''], md_training_date = None,
                  md_model_versions = None\<rparr>,
      models_dir = ''models''\<rparr>"

definition xgboost_and_metadata_dir :: directory where
  "xgboost_and_metadata_dir =
     [(''xgboost.pkl'', Pickle (stub_classifier (1 / 10))),
      (''metadata.json'',
         Json \<lparr>md_feature_names = Some [''amount'', ''hour''], md_training_date = None,
               md_model_versions = None\<rparr>)]"

text \<open>
  A service whose models were set to \<open>ms\<close>, with the service's own 15 names as schema and
  no scaler; and the transaction \<^verbatim>\<open>{amount: 5000, hour: 3, user_risk_score: 95,
  merchant_fraud_rate: 0.25}\<close>.
\<close>

definition stubs_loaded :: "(string \<times> artifact) list \<Rightarrow> service" where
  "stubs_loaded ms =
     \<lparr>models = ms, scalers = [], feature_names = map fst (features []),
      metadata = empty_metadata, models_dir = ''models''\<rparr>"

definition scenario_transaction :: transaction where
  "scenario_transaction =
     [(''amount'', 5000), (''hour'', 3), (''user_risk_score'', 95),
      (''merchant_fraud_rate'', 25 / 100)]"

text \<open>
  A models directory with all five files: metadata with the service's own 15 names, the
  three models and the scaler.
\<close>

definition full_directory :: directory where
  "full_directory =
     [(''metadata.json'',
         Json \<lparr>md_feature_names = Some (map fst (features [])), md_training_date = None,
               md_model_versions = None\<rparr>),
      (''random_forest.pkl'', Pickle (stub_classifier (9 / 10))),
      (''xgboost.pkl'', Pickle (stub_classifier (9 / 10))),
      (''isolation_forest.pkl'', Pickle (stub_detector (- 1 / 4) (- 1))),
      (''standard_scaler.pkl'', Pickle stub_scaler)]"

section \<open>Properties\<close>

lemma model_name_model_files:
  "model_name ''random_forest.pkl'' = ''random_forest.pkl''"
  "model_name ''xgboost.pkl'' = ''xgboost.pkl''"
  "model_name ''isolation_forest.pkl'' = ''isolation_forest.pkl''"
  by (simp_all add: model_name_def str_replace.simps)

subsection \<open>Risk aggregation\<close>

text \<open>
  The block of lines 105-130 alone. The ensemble score is the arithmetic mean of the \<^verbatim>\<open>fraud_probability\<close> of
  the entries of \<^verbatim>\<open>random_forest\<close> and \<^verbatim>\<open>xgboost\<close> that are present: both, one of
  them, or none, and then it is 0. The \<^verbatim>\<open>isolation_forest\<close> entry \<open>z\<close>, whatever it is,
  does not enter the list of scores. The returned \<^verbatim>\<open>fraud_score\<close> is the ensemble score
  times 100. The block is a function of \<^verbatim>\<open>predictions\<close> alone; what \<^verbatim>\<open>predict_fraud\<close>
  makes of it is the subject of a later subsection.
\<close>

theorem ensemble_score_is_mean_of_probability_models:
  "ensemble_score (fraud_scores
      \<lparr>random_forest = Some a, xgboost = Some b, isolation_forest = z\<rparr>)
     = (fraud_probability a + fraud_probability b) / 2
   \<and> ensemble_score (fraud_scores
      \<lparr>random_forest = Some a, xgboost = None, isolation_forest = z\<rparr>)
     = fraud_probability a
   \<and> ensemble_score (fraud_scores
      \<lparr>random_forest = None, xgboost = Some b, isolation_forest = z\<rparr>)
     = fraud_probability b
   \<and> ensemble_score (fraud_scores
      \<lparr>random_forest = None, xgboost = None, isolation_forest = z\<rparr>) = 0
   \<and> fraud_scores (p\<lparr>isolation_forest := z\<rparr>) = fraud_scores p
   \<and> fraud_score (aggregate n p) = ensemble_score (fraud_scores p) * 100"
proof -
  have "fraud_score (aggregate n p) = ensemble_score (fraud_scores p) * 100"
    by (simp add: aggregate_def Let_def)
  moreover have "fraud_scores (p\<lparr>isolation_forest := z\<rparr>) = fraud_scores p"
    by (simp add: fraud_scores_def)
  ultimately show ?thesis
    by (simp add: ensemble_score_def fraud_scores_def)
qed

text \<open>
  The tier map of lines 113-121 alone. With \<open>s\<close> the ensemble score of the predictions and \<open>r\<close> the returned result:
  \<open>s \<ge> 0.8\<close> gives HIGH/BLOCK, \<open>0.5 \<le> s < 0.8\<close> gives MEDIUM/REVIEW, \<open>s < 0.5\<close> gives
  LOW/ALLOW; the boundaries 0.8 and 0.5 belong to the higher tier.
\<close>

theorem risk_tier_thresholds:
  assumes "s = ensemble_score (fraud_scores p)" and "r = aggregate n p"
  shows "(8 / 10 \<le> s \<longrightarrow> risk_level r = HIGH \<and> action r = BLOCK)
       \<and> (5 / 10 \<le> s \<and> s < 8 / 10 \<longrightarrow> risk_level r = MEDIUM \<and> action r = REVIEW)
       \<and> (s < 5 / 10 \<longrightarrow> risk_level r = LOW \<and> action r = ALLOW)
       \<and> (s = 8 / 10 \<longrightarrow> risk_level r = HIGH \<and> action r = BLOCK)
       \<and> (s = 5 / 10 \<longrightarrow> risk_level r = MEDIUM \<and> action r = REVIEW)"
  using assms by (simp add: aggregate_def Let_def risk_tier_def)

lemma ensemble_only_rf: "ensemble_score (fraud_scores (only_rf q)) = q"
  by (simp add: only_rf_def ensemble_score_def fraud_scores_def)

theorem risk_tier_thresholds_witness:
  "ensemble_score (fraud_scores (only_rf (8 / 10))) = 8 / 10
   \<and> risk_level (aggregate 15 (only_rf (8 / 10))) = HIGH
   \<and> action (aggregate 15 (only_rf (8 / 10))) = BLOCK
   \<and> ensemble_score (fraud_scores (only_rf (5 / 10))) = 5 / 10
   \<and> risk_level (aggregate 15 (only_rf (5 / 10))) = MEDIUM
   \<and> action (aggregate 15 (only_rf (5 / 10))) = REVIEW
   \<and> ensemble_score (fraud_scores (only_rf (79999 / 100000))) = 79999 / 100000
   \<and> risk_level (aggregate 15 (only_rf (79999 / 100000))) = MEDIUM
   \<and> action (aggregate 15 (only_rf (79999 / 100000))) = REVIEW
   \<and> ensemble_score (fraud_scores (only_rf (49999 / 100000))) = 49999 / 100000
   \<and> risk_level (aggregate 15 (only_rf (49999 / 100000))) = LOW
   \<and> action (aggregate 15 (only_rf (49999 / 100000))) = ALLOW"
  using risk_tier_thresholds [OF refl refl, of "only_rf (8 / 10)" 15]
        risk_tier_thresholds [OF refl refl, of "only_rf (5 / 10)" 15]
        risk_tier_thresholds [OF refl refl, of "only_rf (79999 / 100000)" 15]
        risk_tier_thresholds [OF refl refl, of "only_rf (49999 / 100000)" 15]
  by (simp add: ensemble_only_rf)

subsection \<open>Feature defaults\<close>

text \<open>
  The dictionary \<^verbatim>\<open>features\<close> of lines 50-66 alone has exactly the 15 recognised
  names, and under each of them the value of the transaction when the name is present
  there and the documented default when it is absent.
\<close>

theorem features_defaults:
  "map fst (features td) =
     [''amount'', ''hour'', ''day_of_week'', ''is_weekend'', ''is_night'',
      ''amount_z_score'', ''time_diff_minutes'', ''has_location'', ''user_risk_score'',
      ''user_avg_amount'', ''user_amount_std'', ''user_txn_count'', ''merchant_fraud_rate'',
      ''merchant_category_encoded'', ''merchant_risk_encoded'']
   \<and> map_of (features td) ''amount'' =
       Some (case map_of td ''amount'' of None \<Rightarrow> 0 | Some v \<Rightarrow> v)
   \<and> map_of (features td) ''hour'' =
       Some (case map_of td ''hour'' of None \<Rightarrow> 12 | Some v \<Rightarrow> v)
   \<and> map_of (features td) ''day_of_week'' =
       Some (case map_of td ''day_of_week'' of None \<Rightarrow> 0 | Some v \<Rightarrow> v)
   \<and> map_of (features td) ''is_weekend'' =
       Some (case map_of td ''is_weekend'' of None \<Rightarrow> 0 | Some v \<Rightarrow> v)
   \<and> map_of (features td) ''is_night'' =
       Some (case map_of td ''is_night'' of None \<Rightarrow> 0 | Some v \<Rightarrow> v)
   \<and> map_of (features td) ''amount_z_score'' =
       Some (case map_of td ''amount_z_score'' of None \<Rightarrow> 0 | Some v \<Rightarrow> v)
   \<and> map_of (features td) ''time_diff_minutes'' =
       Some (case map_of td ''time_diff_minutes'' of None \<Rightarrow> 60 | Some v \<Rightarrow> v)
   \<and> map_of (features td) ''has_location'' =
       Some (case map_of td ''has_location'' of None \<Rightarrow> 1 | Some v \<Rightarrow> v)
   \<and> map_of (features td) ''user_risk_score'' =
       Some (case map_of td ''user_risk_score'' of None \<Rightarrow> 20 | Some v \<Rightarrow> v)
   \<and> map_of (features td) ''user_avg_amount'' =
       Some (case map_of td ''user_avg_amount'' of None \<Rightarrow> 100 | Some v \<Rightarrow> v)
   \<and> map_of (features td) ''user_amount_std'' =
       Some (case map_of td ''user_amount_std'' of None \<Rightarrow> 50 | Some v \<Rightarrow> v)
   \<and> map_of (features td) ''user_txn_count'' =
       Some (case map_of td ''user_txn_count'' of None \<Rightarrow> 10 | Some v \<Rightarrow> v)
   \<and> map_of (features td) ''merchant_fraud_rate'' =
       Some (case map_of td ''merchant_fraud_rate'' of None \<Rightarrow> 2 / 100 | Some v \<Rightarrow> v)
   \<and> map_of (features td) ''merchant_category_encoded'' =
       Some (case map_of td ''merchant_category_encoded'' of None \<Rightarrow> 0 | Some v \<Rightarrow> v)
   \<and> map_of (features td) ''merchant_risk_encoded'' =
       Some (case map_of td ''merchant_risk_encoded'' of None \<Rightarrow> 0 | Some v \<Rightarrow> v)"
  by (simp add: features_def get_default_def split: option.split)

subsection \<open>Per-model predictions\<close>

text \<open>
  The block of lines 84-103 alone. Let \<open>rf\<close>, \<open>xgb\<close> and \<open>isf\<close> be what the loaded models hold under the three
  names: \<open>None\<close> when the name is absent, else the classifier's \<^verbatim>\<open>predict_proba\<close> or the
  detector's \<^verbatim>\<open>decision_function\<close> and \<^verbatim>\<open>predict\<close>. Then the block of lines 84-103
  raises nothing, and its record has, for each name, no entry when the model is absent
  and otherwise this entry: \<^verbatim>\<open>fraud_probability\<close> is P(class 1) and
  \<^verbatim>\<open>prediction\<close> is 1 exactly when it exceeds 0.5; \<^verbatim>\<open>anomaly_score\<close> is the decision
  value and \<^verbatim>\<open>is_anomaly\<close> is 1 exactly when the label is -1.
\<close>

theorem predict_models_entries:
  assumes "map_of ms ''random_forest'' = map_option Classifier rf"
      and "map_of ms ''xgboost'' = map_option Classifier xgb"
      and "map_of ms ''isolation_forest'' = map_option (\<lambda>(d, l). Detector d l) isf"
  shows "predict_models ms x =
     Inr \<lparr>random_forest =
            map_option (\<lambda>f. \<lparr>fraud_probability = snd (f x),
                             prediction = (if snd (f x) > 5 / 10 then 1 else 0)\<rparr>) rf,
          xgboost =
            map_option (\<lambda>f. \<lparr>fraud_probability = snd (f x),
                             prediction = (if snd (f x) > 5 / 10 then 1 else 0)\<rparr>) xgb,
          isolation_forest =
            map_option (\<lambda>(d, l). \<lparr>anomaly_score = d x,
                                  is_anomaly = (if l x = - 1 then 1 else 0)\<rparr>) isf\<rparr>"
proof -
  have rf: "when_loaded ms ''random_forest'' (\<lambda>m. prob_prediction m x) =
      Inr (map_option (\<lambda>f. \<lparr>fraud_probability = snd (f x),
                             prediction = (if snd (f x) > 5 / 10 then 1 else 0)\<rparr>) rf)"
    using assms(1) by (cases rf) (simp_all add: when_loaded_def prob_prediction_def)
  have xgb: "when_loaded ms ''xgboost'' (\<lambda>m. prob_prediction m x) =
      Inr (map_option (\<lambda>f. \<lparr>fraud_probability = snd (f x),
                             prediction = (if snd (f x) > 5 / 10 then 1 else 0)\<rparr>) xgb)"
    using assms(2) by (cases xgb) (simp_all add: when_loaded_def prob_prediction_def)
  have isf: "when_loaded ms ''isolation_forest'' (\<lambda>m. anomaly_prediction m x) =
      Inr (map_option (\<lambda>(d, l). \<lparr>anomaly_score = d x,
                                  is_anomaly = (if l x = - 1 then 1 else 0)\<rparr>) isf)"
    using assms(3)
    by (cases isf) (auto simp add: when_loaded_def anomaly_prediction_def)
  show ?thesis
    unfolding predict_models_def rf xgb isf by simp
qed

theorem predict_models_entries_witness:
  "predict_models
     [(''random_forest'', stub_classifier (9 / 10)),
      (''isolation_forest'', stub_detector (- 1 / 4) (- 1))] [5000, 3]
   = Inr \<lparr>random_forest = Some \<lparr>fraud_probability = 9 / 10, prediction = 1\<rparr>,
          xgboost = None,
          isolation_forest = Some \<lparr>anomaly_score = - 1 / 4, is_anomaly = 1\<rparr>\<rparr>"
  using predict_models_entries
    [of "[(''random_forest'', stub_classifier (9 / 10)),
          (''isolation_forest'', stub_detector (- 1 / 4) (- 1))]"
        "Some (\<lambda>x. (1 - 9 / 10, 9 / 10))" None "Some (\<lambda>x. - 1 / 4, \<lambda>x. - 1)" "[5000, 3]"]
  by (simp add: stub_classifier_def stub_detector_def)

subsection \<open>Loading and model names\<close>

text \<open>
  Claim C4, evaluated on a fresh service and a directory that holds only a well-formed
  \<^verbatim>\<open>random_forest.pkl\<close>: one model is loaded, but under the key
  \<^verbatim>\<open>random_forest.pkl\<close>, since \<^verbatim>\<open>replace(',pkl', '')\<close> finds nothing to replace. The
  key \<^verbatim>\<open>random_forest\<close> is absent, and the prediction block has no entry for the loaded
  model.
\<close>

theorem random_forest_file_indexed_under_file_name:
  "load_models (Some [(''random_forest.pkl'', Pickle m)]) (fresh dir)
     = (None, (fresh dir)\<lparr>models := [(''random_forest.pkl'', m)]\<rparr>)
   \<and> reload_models (Some [(''random_forest.pkl'', Pickle m)]) (fresh dir)
     = (Reloaded 1, (fresh dir)\<lparr>models := [(''random_forest.pkl'', m)]\<rparr>)
   \<and> map_of [(''random_forest.pkl'', m)] ''random_forest'' = None
   \<and> predict_models [(''random_forest.pkl'', m)] x = Inr no_predictions"
proof -
  have l: "load_models (Some [(''random_forest.pkl'', Pickle m)]) (fresh dir)
     = (None, (fresh dir)\<lparr>models := [(''random_forest.pkl'', m)]\<rparr>)"
    by (simp add: load_models_def load_metadata_def model_files_def load_scaler_def
        model_name_model_files fresh_def)
  have p: "predict_models [(''random_forest.pkl'', m)] x = Inr no_predictions"
    by (simp add: predict_models_def when_loaded_def no_predictions_def)
  show ?thesis
    using l p by (simp add: reload_models_def fresh_def)
qed

subsection \<open>Feature extraction\<close>

text \<open>
  Line 68 alone does what the schema asks: for recognised names it yields one value per
  name, in schema order; it raises \<^verbatim>\<open>KeyError\<close> only at a name that is not recognised.
\<close>

lemma feature_vector_recognised:
  "set names \<subseteq> fst ` set fs \<Longrightarrow>
     feature_vector names fs = Inr (map (\<lambda>name. the (map_of fs name)) names)"
proof (induction names)
  case Nil
  then show ?case by simp
next
  case (Cons name names)
  then obtain v where "map_of fs name = Some v"
    by (metis list.set_intros(1) subsetD map_of_eq_None_iff not_Some_eq)
  with Cons show ?case by simp
qed

lemma feature_vector_unrecognised:
  "feature_vector names fs = Inl e \<Longrightarrow> \<exists>name \<in> set names. e = KeyError name \<and> map_of fs name = None"
  by (induction names) (auto split: option.splits sum.splits)

text \<open>Line 69 then raises in every case that line 68 did not.\<close>

lemma extract_features_raises: "\<exists>e. extract_features s td = Inl e"
  by (simp add: extract_features_def ndarray_call_def split: sum.split)

text \<open>
  Claim C5, evaluated: with the one-name schema \<^verbatim>\<open>['amount']\<close> and the empty transaction
  the call raises \<^verbatim>\<open>AttributeError\<close> at \<^verbatim>\<open>resape\<close>; and for every service state and
  every transaction \<^verbatim>\<open>extract_features\<close> raises, so it never returns a vector.
\<close>

theorem extract_features_never_returns:
  "extract_features (s\<lparr>feature_names := [''amount'']\<rparr>) [] = Inl (AttributeError ''resape'')
   \<and> (\<exists>e. extract_features s td = Inl e)"
  by (simp add: extract_features_raises)
     (simp add: extract_features_def features_def ndarray_call_def)

text \<open>
  Claim C6, evaluated: \<^verbatim>\<open>prepare_features\<close> sets the trainer's feature names to its 15
  columns; a service that loads a metadata file with these names has them as its schema;
  and extraction with this schema raises \<^verbatim>\<open>KeyError\<close> at \<^verbatim>\<open>has_locations\<close> for every
  transaction, because the service knows the name \<^verbatim>\<open>has_location\<close>.
\<close>

theorem trainer_columns_not_extractable:
  "prepare_features (feature_columns @ [''is_fraud'']) t
     = Inr (t\<lparr>t_feature_names := feature_columns\<rparr>)
   \<and> feature_names (snd (load_models
        (Some (write_metadata now (t\<lparr>t_feature_names := feature_columns\<rparr>) []))
        (fresh dir))) = feature_columns
   \<and> extract_features (s\<lparr>feature_names := feature_columns\<rparr>) td
     = Inl (KeyError ''has_locations'')"
proof -
  have a: "prepare_features (feature_columns @ [''is_fraud'']) t
     = Inr (t\<lparr>t_feature_names := feature_columns\<rparr>)"
    by (simp add: prepare_features_def)
  have b: "feature_names (snd (load_models
        (Some (write_metadata now (t\<lparr>t_feature_names := feature_columns\<rparr>) []))
        (fresh dir))) = feature_columns"
    by (simp add: load_models_def load_metadata_def write_metadata_def model_files_def
        load_scaler_def fresh_def)
  have c: "extract_features (s\<lparr>feature_names := feature_columns\<rparr>) td
     = Inl (KeyError ''has_locations'')"
    by (simp add: extract_features_def feature_columns_def features_def)
  from a b c show ?thesis by simp
qed

text \<open>The trainer's own \<^verbatim>\<open>save_models\<close> raises before it writes the metadata.\<close>

lemma save_models_raises: "fst (save_models now t disk) = Some (AttributeError ''item'')"
  by (simp add: save_models_def dict_call_def Let_def)

subsection \<open>What the callers of \<^verbatim>\<open>predict_fraud\<close> and \<^verbatim>\<open>extract_features\<close> receive\<close>

text \<open>
  \<^verbatim>\<open>predict_fraud\<close> calls \<^verbatim>\<open>extract_features\<close> at line 78, before it runs a model, and
  line 69 raises: no state and no transaction make it return the dictionary of lines
  123-130.
\<close>

lemma predict_fraud_never_scores: "predict_fraud s td \<noteq> Inr (Scored r)"
  using extract_features_raises [of s td]
  by (auto simp add: predict_fraud_def no_models_response_def)

lemma features_keys:
  "map fst (features td) =
     [''amount'', ''hour'', ''day_of_week'', ''is_weekend'', ''is_night'',
      ''amount_z_score'', ''time_diff_minutes'', ''has_location'', ''user_risk_score'',
      ''user_avg_amount'', ''user_amount_std'', ''user_txn_count'', ''merchant_fraud_rate'',
      ''merchant_category_encoded'', ''merchant_risk_encoded'']"
  by (simp add: features_def)

lemma extract_features_recognised:
  "extract_features (s\<lparr>feature_names := map fst (features td')\<rparr>) td
     = Inl (AttributeError ''resape'')"
proof -
  have "set (map fst (features td')) \<subseteq> fst ` set (features td)"
    by (simp only: features_keys [of td'] features_keys [of td, symmetric] set_map)
  from feature_vector_recognised [OF this] show ?thesis
    by (simp add: extract_features_def ndarray_call_def)
qed

lemma predict_fraud_recognised_schema:
  "ms \<noteq> [] \<Longrightarrow> predict_fraud (stubs_loaded ms) td = Inl (AttributeError ''resape'')"
  using extract_features_recognised [where s = "stubs_loaded ms" and td' = "[]" and td = td]
  by (simp add: predict_fraud_def stubs_loaded_def)

text \<open>
  Claim C1, evaluated: with a random forest and an xgboost model that both answer 0.9,
  the service's schema and the transaction above, the mean is 0.9 and the fraud score
  90, but \<^verbatim>\<open>predict_fraud\<close> raises \<^verbatim>\<open>AttributeError\<close> at \<^verbatim>\<open>resape\<close>; and for no state
  and no transaction does it return a scored result \<open>r\<close>, so it computes no ensemble
  score and returns no fraud score.
\<close>

theorem predict_fraud_returns_no_ensemble_score:
  "predict_fraud
     (stubs_loaded [(''random_forest'', stub_classifier (9 / 10)),
                    (''xgboost'', stub_classifier (9 / 10))]) scenario_transaction
     = Inl (AttributeError ''resape'')
   \<and> predict_fraud s td \<noteq> Inr (Scored r)"
  by (simp add: predict_fraud_recognised_schema predict_fraud_never_scores)

text \<open>The blocks after the extraction would give 90, HIGH and BLOCK there.\<close>

lemma scenario_after_extraction:
  "predict_models [(''random_forest'', stub_classifier (9 / 10)),
                   (''xgboost'', stub_classifier (9 / 10))] x = Inr p \<Longrightarrow>
     fraud_score (aggregate n p) = 90 \<and> risk_level (aggregate n p) = HIGH
     \<and> action (aggregate n p) = BLOCK"
  by (auto simp add: predict_models_def when_loaded_def prob_prediction_def
      stub_classifier_def aggregate_def Let_def fraud_scores_def ensemble_score_def
      risk_tier_def)

text \<open>
  Claim C2, evaluated: with a random forest that answers exactly 0.8, or exactly 0.5,
  \<^verbatim>\<open>predict_fraud\<close> raises \<^verbatim>\<open>AttributeError\<close> at \<^verbatim>\<open>resape\<close> instead of returning
  HIGH/BLOCK, or MEDIUM/REVIEW; and for no state and no transaction does it return a
  result with any risk level \<open>l\<close> and action \<open>a\<close>.
\<close>

theorem predict_fraud_returns_no_risk_tier:
  "predict_fraud (stubs_loaded [(''random_forest'', stub_classifier (8 / 10))]) []
     = Inl (AttributeError ''resape'')
   \<and> predict_fraud (stubs_loaded [(''random_forest'', stub_classifier (5 / 10))]) []
     = Inl (AttributeError ''resape'')
   \<and> predict_fraud s td \<noteq>
       Inr (Scored \<lparr>fraud_score = f, risk_level = l, action = a, model_predictions = p,
                    feature_count = n, models_used = u\<rparr>)"
  by (simp add: predict_fraud_recognised_schema predict_fraud_never_scores)

text \<open>
  Whether line 68 raises, and at which name, depends on the schema alone: the keys of
  \<^verbatim>\<open>features\<close> are the same for every transaction.
\<close>

lemma feature_vector_same_error:
  "map fst fs = map fst fs' \<Longrightarrow>
     (case feature_vector names fs of Inl e \<Rightarrow> Some e | Inr v \<Rightarrow> None)
       = (case feature_vector names fs' of Inl e \<Rightarrow> Some e | Inr v \<Rightarrow> None)"
proof (induction names)
  case Nil
  then show ?case by simp
next
  case (Cons name names)
  from Cons.prems have "fst ` set fs = fst ` set fs'"
    by (metis set_map)
  then have "(map_of fs name = None) = (map_of fs' name = None)"
    by (simp add: map_of_eq_None_iff)
  with Cons show ?case
    by (auto split: option.splits sum.splits)
qed

lemma extract_features_error:
  "extract_features s td =
     (case feature_vector (feature_names s) (features td) of
        Inl e \<Rightarrow> Inl e | Inr v \<Rightarrow> Inl (AttributeError ''resape''))"
  by (simp add: extract_features_def ndarray_call_def split: sum.split)

lemma extract_features_ignores_transaction:
  "extract_features s td = extract_features s td'"
  using feature_vector_same_error [of "features td" "features td'" "feature_names s"]
  by (auto simp add: extract_features_error features_keys split: sum.splits)

text \<open>Line 68 alone would give the 15 defaults for the empty transaction.\<close>

lemma defaults_at_line_68:
  "feature_vector (map fst (features [])) (features [])
     = Inr [0, 12, 0, 0, 0, 0, 60, 1, 20, 100, 50, 10, 2 / 100, 0, 0]"
  by (simp add: features_def get_default_def)

text \<open>
  Claim C3, evaluated: with the service's 15 names as schema and the empty transaction,
  \<^verbatim>\<open>extract_features\<close> raises \<^verbatim>\<open>AttributeError\<close> at \<^verbatim>\<open>resape\<close> instead of returning
  the 15 defaults; a transaction with \<^verbatim>\<open>hour\<close> 3 gives what the empty one gives; and for
  every state the outcome is the same for any two transactions, so neither a default nor
  a value of the record reaches the caller.
\<close>

theorem extract_features_returns_no_default:
  "extract_features (s\<lparr>feature_names := map fst (features [])\<rparr>) []
     = Inl (AttributeError ''resape'')
   \<and> extract_features (s\<lparr>feature_names := [''hour'']\<rparr>) [(''hour'', 3)]
     = extract_features (s\<lparr>feature_names := [''hour'']\<rparr>) []
   \<and> extract_features s td = extract_features s td'"
  using extract_features_recognised [where s = s and td' = "[]" and td = "[]"]
    extract_features_ignores_transaction [of "s\<lparr>feature_names := [''hour'']\<rparr>"]
    extract_features_ignores_transaction [of s td td']
  by simp

text \<open>
  Claim C9, evaluated: the constructor on the directory with all five files loads the
  three models, under their file names, and \<^verbatim>\<open>predict_fraud\<close> then raises
  \<^verbatim>\<open>AttributeError\<close> at \<^verbatim>\<open>resape\<close>; so it does with a random forest and an isolation
  forest set under the recognised names; and for no state and no transaction does it
  return the result that lines 84-130 build from any predictions \<open>p\<close>.
\<close>

theorem predict_fraud_returns_no_model_entry:
  "(\<exists>s. init ''models'' (Some full_directory) = Inr s
        \<and> map fst (models s) = [''random_forest.pkl'', ''xgboost.pkl'', ''isolation_forest.pkl'']
        \<and> predict_fraud s scenario_transaction = Inl (AttributeError ''resape''))
   \<and> predict_fraud
        (stubs_loaded [(''random_forest'', stub_classifier (9 / 10)),
                       (''isolation_forest'', stub_detector (- 1 / 4) (- 1))]) []
        = Inl (AttributeError ''resape'')
   \<and> predict_fraud s' td \<noteq> Inr (Scored (aggregate n p))"
proof -
  let ?s = "\<lparr>models = [(''random_forest.pkl'', stub_classifier (9 / 10)),
                        (''xgboost.pkl'', stub_classifier (9 / 10)),
                        (''isolation_forest.pkl'', stub_detector (- 1 / 4) (- 1))],
              scalers = [(''standard'', stub_scaler)],
              feature_names = map fst (features []),
              metadata = \<lparr>md_feature_names = Some (map fst (features [])),
                          md_training_date = None, md_model_versions = None\<rparr>,
              models_dir = ''models''\<rparr>"
  have i: "init ''models'' (Some full_directory) = Inr ?s"
    by (simp add: init_def load_models_def load_metadata_def model_files_def
        load_scaler_def model_name_model_files fresh_def full_directory_def)
  have "predict_fraud ?s scenario_transaction = Inl (AttributeError ''resape'')"
    using extract_features_recognised
      [where s = ?s and td' = "[]" and td = scenario_transaction]
    by (simp add: predict_fraud_def)
  with i have "\<exists>s. init ''models'' (Some full_directory) = Inr s
        \<and> map fst (models s) = [''random_forest.pkl'', ''xgboost.pkl'', ''isolation_forest.pkl'']
        \<and> predict_fraud s scenario_transaction = Inl (AttributeError ''resape'')"
    by simp
  then show ?thesis
    by (simp add: predict_fraud_recognised_schema predict_fraud_never_scores)
qed

subsection \<open>Prediction without models, and with models under other names\<close>

lemma only_forest_loaded_init:
  "init ''models'' (Some [(''random_forest.pkl'', Pickle (stub_classifier (9 / 10)))])
     = Inr only_forest_loaded"
  by (simp add: init_def load_models_def load_metadata_def model_files_def load_scaler_def
        model_name_model_files fresh_def only_forest_loaded_def)

text \<open>
  Claim C7 as stated fails: after the constructor ran on a directory with a model file and
  no metadata, the schema is empty, the models are not, and \<^verbatim>\<open>predict_fraud\<close> does not
  answer with the "no models loaded" dictionary.
\<close>

theorem empty_schema_with_model_counterexample:
  "feature_names only_forest_loaded = []
   \<and> models only_forest_loaded \<noteq> []
   \<and> predict_fraud only_forest_loaded [] \<noteq> Inr no_models_response"
  by (simp add: only_forest_loaded_def predict_fraud_def extract_features_def ndarray_call_def)

text \<open>
  Claim C7, amended: whenever no model is loaded, whatever the schema and the transaction,
  \<^verbatim>\<open>predict_fraud\<close> returns (and does not raise) the dictionary with the error text, fraud
  score 0 and no model predictions; so it does for the empty transaction on a fresh service.
\<close>

theorem no_models_response_when_models_empty:
  "predict_fraud (s\<lparr>models := []\<rparr>) td = Inr no_models_response
   \<and> predict_fraud (fresh dir) [] = Inr no_models_response
   \<and> no_models_response =
       NoModels ''No models loaded. Please train models first'' 0
         \<lparr>random_forest = None, xgboost = None, isolation_forest = None\<rparr>"
  by (simp add: predict_fraud_def fresh_def no_models_response_def no_predictions_def)

text \<open>
  Claim C10, evaluated: with one model under the key \<^verbatim>\<open>random_forest.pkl\<close>, the service's
  own 15 names as schema and the empty transaction, \<^verbatim>\<open>predict_fraud\<close> raises
  \<^verbatim>\<open>AttributeError\<close> at \<^verbatim>\<open>resape\<close>; and it raises for every state whose models are not
  empty.
\<close>

theorem predict_fraud_raises_with_unrecognised_model:
  "predict_fraud
     \<lparr>models = [(''random_forest.pkl'', m)], scalers = [],
      feature_names = map fst (features []), metadata = empty_metadata,
      models_dir = ''models''\<rparr> [] = Inl (AttributeError ''resape'')
   \<and> (\<exists>e. predict_fraud (s\<lparr>models := (name, m) # ms\<rparr>) td = Inl e)"
proof -
  have "\<exists>e. predict_fraud (s\<lparr>models := (name, m) # ms\<rparr>) td = Inl e"
    using extract_features_raises [of "s\<lparr>models := (name, m) # ms\<rparr>" td]
    by (auto simp add: predict_fraud_def)
  moreover have "predict_fraud
     \<lparr>models = [(''random_forest.pkl'', m)], scalers = [],
      feature_names = map fst (features []), metadata = empty_metadata,
      models_dir = ''models''\<rparr> [] = Inl (AttributeError ''resape'')"
    by (simp add: predict_fraud_def extract_features_def ndarray_call_def features_def)
  ultimately show ?thesis by simp
qed

text \<open>
  The blocks after the extraction would give what claim C10 describes: no entries, score
  0, LOW and ALLOW.
\<close>

lemma unrecognised_models_after_extraction:
  assumes "map_of ms ''random_forest'' = None" and "map_of ms ''xgboost'' = None"
      and "map_of ms ''isolation_forest'' = None"
  shows "predict_models ms x = Inr no_predictions"
    and "aggregate n no_predictions =
      \<lparr>fraud_score = 0, risk_level = LOW, action = ALLOW,
       model_predictions = no_predictions, feature_count = n, models_used = []\<rparr>"
  using assms
  by (simp_all add: predict_models_def when_loaded_def no_predictions_def aggregate_def
      Let_def fraud_scores_def ensemble_score_def risk_tier_def keys_def)

subsection \<open>Reload\<close>

lemma distinct_model_names: "distinct (map model_name model_files)"
  by (simp add: model_files_def model_name_model_files)

lemma load_metadata_frame:
  "load_metadata d s = (e, s') \<Longrightarrow> models s' = models s \<and> scalers s' = scalers s"
  by (auto simp add: load_metadata_def split: option.splits sum.splits)

lemma load_metadata_absent:
  "map_of d ''metadata.json'' = None \<Longrightarrow> load_metadata d s = (None, s)"
  by (simp add: load_metadata_def)

lemma load_metadata_present:
  "map_of d ''metadata.json'' = Some (Json m) \<Longrightarrow>
     load_metadata d s =
       (None, s\<lparr>metadata := m,
                feature_names := (case md_feature_names m of None \<Rightarrow> [] | Some ns \<Rightarrow> ns)\<rparr>)"
  by (simp add: load_metadata_def)

lemma load_model_files_frame:
  "load_model_files d fs s = (e, s') \<Longrightarrow>
     scalers s' = scalers s \<and> metadata s' = metadata s \<and> feature_names s' = feature_names s"
proof (induction fs arbitrary: s)
  case Nil
  then show ?case by simp
next
  case (Cons f fs)
  then show ?case
    by (fastforce split: option.splits sum.splits)
qed

lemma load_model_files_other:
  "load_model_files d fs s = (e, s') \<Longrightarrow> k \<notin> model_name ` set fs \<Longrightarrow>
     map_of (models s') k = map_of (models s) k"
proof (induction fs arbitrary: s)
  case Nil
  then show ?case by simp
next
  case (Cons f fs)
  show ?case
  proof (cases "map_of d f")
    case None
    with Cons show ?thesis by simp
  next
    case (Some c)
    show ?thesis
    proof (cases "pickle_load c")
      case (Inl err)
      with Some Cons.prems show ?thesis by simp
    next
      case (Inr a)
      with Some Cons.prems
      have "load_model_files d fs (s\<lparr>models := AList.update (model_name f) a (models s)\<rparr>)
              = (e, s')" by simp
      from Cons.IH [OF this] Cons.prems(2) show ?thesis
        by (simp add: update_conv')
    qed
  qed
qed

lemma load_model_files_absent:
  "load_model_files d fs s = (e, s') \<Longrightarrow> distinct (map model_name fs) \<Longrightarrow>
   mf \<in> set fs \<Longrightarrow> map_of d mf = None \<Longrightarrow>
     map_of (models s') (model_name mf) = map_of (models s) (model_name mf)"
proof (induction fs arbitrary: s)
  case Nil
  then show ?case by simp
next
  case (Cons f fs)
  show ?case
  proof (cases "mf = f")
    case True
    with Cons.prems have "load_model_files d fs s = (e, s')"
      and "model_name mf \<notin> model_name ` set fs" by auto
    then show ?thesis by (rule load_model_files_other)
  next
    case False
    with Cons.prems have mf: "mf \<in> set fs" and d: "distinct (map model_name fs)"
      and ne: "model_name f \<noteq> model_name mf" by auto
    show ?thesis
    proof (cases "map_of d f")
      case None
      with Cons.prems(1) have "load_model_files d fs s = (e, s')" by simp
      from Cons.IH [OF this d mf Cons.prems(4)] show ?thesis .
    next
      case (Some c)
      show ?thesis
      proof (cases "pickle_load c")
        case (Inl err)
        with Some Cons.prems(1) show ?thesis by simp
      next
        case (Inr a)
        with Some Cons.prems(1)
        have "load_model_files d fs (s\<lparr>models := AList.update (model_name f) a (models s)\<rparr>)
                = (e, s')" by simp
        from Cons.IH [OF this d mf Cons.prems(4)] ne show ?thesis
          by (simp add: update_conv')
      qed
    qed
  qed
qed

lemma load_model_files_present:
  "load_model_files d fs s = (None, s') \<Longrightarrow> distinct (map model_name fs) \<Longrightarrow>
   mf \<in> set fs \<Longrightarrow> map_of d mf = Some (Pickle a) \<Longrightarrow>
     map_of (models s') (model_name mf) = Some a"
proof (induction fs arbitrary: s)
  case Nil
  then show ?case by simp
next
  case (Cons f fs)
  show ?case
  proof (cases "mf = f")
    case True
    with Cons.prems
    have l: "load_model_files d fs (s\<lparr>models := AList.update (model_name mf) a (models s)\<rparr>)
               = (None, s')"
      and "model_name mf \<notin> model_name ` set fs" by auto
    from load_model_files_other [OF this] show ?thesis
      by (simp add: update_conv')
  next
    case False
    with Cons.prems have mf: "mf \<in> set fs" and d: "distinct (map model_name fs)" by auto
    show ?thesis
    proof (cases "map_of d f")
      case None
      with Cons.prems(1) have "load_model_files d fs s = (None, s')" by simp
      from Cons.IH [OF this d mf Cons.prems(4)] show ?thesis .
    next
      case (Some c)
      show ?thesis
      proof (cases "pickle_load c")
        case (Inl err)
        with Some Cons.prems(1) show ?thesis by simp
      next
        case (Inr b)
        with Some Cons.prems(1)
        have "load_model_files d fs (s\<lparr>models := AList.update (model_name f) b (models s)\<rparr>)
                = (None, s')" by simp
        from Cons.IH [OF this d mf Cons.prems(4)] show ?thesis .
      qed
    qed
  qed
qed

lemma load_model_files_loadable:
  "list_all (\<lambda>name. case map_of d name of None \<Rightarrow> True | Some f \<Rightarrow> \<not> isl (pickle_load f)) fs
     \<Longrightarrow> fst (load_model_files d fs s) = None"
  by (induction fs arbitrary: s) (auto split: option.splits sum.splits)

lemma load_scaler_frame:
  "load_scaler d s = (e, s') \<Longrightarrow>
     models s' = models s \<and> metadata s' = metadata s \<and> feature_names s' = feature_names s"
  by (auto simp add: load_scaler_def split: option.splits sum.splits)

lemma load_models_steps:
  assumes "load_models (Some d) s = (None, s')"
  obtains s1 s2 where "load_metadata d s = (None, s1)"
    and "load_model_files d model_files s1 = (None, s2)"
    and "load_scaler d s2 = (None, s')"
  using assms
  by (auto simp add: load_models_def split: prod.splits option.splits)

lemma load_models_loadable:
  assumes "loadable d"
  shows "fst (load_models (Some d) s) = None"
proof -
  from assms have m: "fst (load_metadata d s) = None"
    by (auto simp add: loadable_def load_metadata_def split: option.splits sum.splits)
  from assms have f: "\<And>s1. fst (load_model_files d model_files s1) = None"
    by (simp add: loadable_def load_model_files_loadable)
  from assms have sc: "\<And>s2. fst (load_scaler d s2) = None"
    by (auto simp add: loadable_def load_scaler_def split: option.splits sum.splits)
  show ?thesis
    using m f sc
    by (auto simp add: load_models_def split: prod.splits option.splits)
       (metis fst_conv option.distinct(1))+
qed

text \<open>
  Claim C8, amended. On a directory whose files are loadable \<^verbatim>\<open>load_models\<close> raises
  nothing, and in the state \<open>s'\<close> it reaches: a model whose file is present is the file's
  content and a model whose file is absent is the one loaded before, as is every model
  under any other key; the scaler and the metadata (with the schema) are likewise
  replaced when their file is present and kept when it is absent. When the directory
  does not exist the state is unchanged.
\<close>

theorem reload_replaces_present_keeps_absent:
  assumes "loadable d" and "s' = snd (load_models (Some d) s)"
  shows "fst (load_models (Some d) s) = None
    \<and> (\<forall>mf \<in> set model_files.
          (map_of d mf = None \<longrightarrow>
             map_of (models s') (model_name mf) = map_of (models s) (model_name mf))
        \<and> (\<forall>a. map_of d mf = Some (Pickle a) \<longrightarrow>
             map_of (models s') (model_name mf) = Some a))
    \<and> (\<forall>k. k \<notin> model_name ` set model_files \<longrightarrow> map_of (models s') k = map_of (models s) k)
    \<and> (map_of d ''standard_scaler.pkl'' = None \<longrightarrow> scalers s' = scalers s)
    \<and> (\<forall>a. map_of d ''standard_scaler.pkl'' = Some (Pickle a) \<longrightarrow>
          scalers s' = AList.update ''standard'' a (scalers s))
    \<and> (map_of d ''metadata.json'' = None \<longrightarrow>
          metadata s' = metadata s \<and> feature_names s' = feature_names s)
    \<and> (\<forall>m. map_of d ''metadata.json'' = Some (Json m) \<longrightarrow>
          metadata s' = m
          \<and> feature_names s' = (case md_feature_names m of None \<Rightarrow> [] | Some ns \<Rightarrow> ns))
    \<and> load_models None s = (None, s)"
proof -
  from assms have ok: "load_models (Some d) s = (None, s')"
    using load_models_loadable [of d s] by (metis prod.collapse)
  then obtain s1 s2 where s1: "load_metadata d s = (None, s1)"
    and s2: "load_model_files d model_files s1 = (None, s2)"
    and s3: "load_scaler d s2 = (None, s')"
    by (rule load_models_steps)
  note f1 = load_metadata_frame [OF s1]
  note f2 = load_model_files_frame [OF s2]
  note f3 = load_scaler_frame [OF s3]
  have absent: "map_of (models s') (model_name mf) = map_of (models s) (model_name mf)"
    if "mf \<in> set model_files" "map_of d mf = None" for mf
    using load_model_files_absent [OF s2 distinct_model_names that] f1 f3 by simp
  have present: "map_of (models s') (model_name mf) = Some a"
    if "mf \<in> set model_files" "map_of d mf = Some (Pickle a)" for mf a
    using load_model_files_present [OF s2 distinct_model_names that] f3 by simp
  have other: "map_of (models s') k = map_of (models s) k"
    if "k \<notin> model_name ` set model_files" for k
    using load_model_files_other [OF s2 that] f1 f3 by simp
  have sc_absent: "scalers s' = scalers s" if "map_of d ''standard_scaler.pkl'' = None"
    using s3 that f1 f2 by (simp add: load_scaler_def)
  have sc_present: "scalers s' = AList.update ''standard'' a (scalers s)"
    if "map_of d ''standard_scaler.pkl'' = Some (Pickle a)" for a
    using s3 that f1 f2 by (auto simp add: load_scaler_def)
  have md_absent: "metadata s' = metadata s \<and> feature_names s' = feature_names s"
    if "map_of d ''metadata.json'' = None"
    using s1 load_metadata_absent [OF that, of s] f2 f3 by simp
  have md_present: "metadata s' = m
      \<and> feature_names s' = (case md_feature_names m of None \<Rightarrow> [] | Some ns \<Rightarrow> ns)"
    if "map_of d ''metadata.json'' = Some (Json m)" for m
    using s1 load_metadata_present [OF that, of s] f2 f3 by auto
  have missing: "load_models None s = (None, s)"
    by (simp add: load_models_def)
  from ok absent present other sc_absent sc_present md_absent md_present missing
  show ?thesis by simp
qed

lemma loadable_example: "loadable xgboost_and_metadata_dir"
  by (simp add: loadable_def xgboost_and_metadata_dir_def model_files_def)

theorem reload_replaces_present_keeps_absent_witness:
  "loadable xgboost_and_metadata_dir
   \<and> fst (load_models (Some xgboost_and_metadata_dir) forest_and_scaler_loaded) = None
   \<and> map_of (models (snd (load_models (Some xgboost_and_metadata_dir) forest_and_scaler_loaded)))
        (model_name ''random_forest.pkl'') = Some (stub_classifier (9 / 10))
   \<and> map_of (models (snd (load_models (Some xgboost_and_metadata_dir) forest_and_scaler_loaded)))
        (model_name ''xgboost.pkl'') = Some (stub_classifier (1 / 10))
   \<and> scalers (snd (load_models (Some xgboost_and_metadata_dir) forest_and_scaler_loaded))
        = [(''standard'', stub_scaler)]
   \<and> feature_names (snd (load_models (Some xgboost_and_metadata_dir) forest_and_scaler_loaded))
        = [''amount'', ''hour'']"
proof -
  note t = reload_replaces_present_keeps_absent
    [OF loadable_example refl, of forest_and_scaler_loaded]
  have mem: "''random_forest.pkl'' \<in> set model_files" "''xgboost.pkl'' \<in> set model_files"
    by (simp_all add: model_files_def)
  have rf: "map_of xgboost_and_metadata_dir ''random_forest.pkl'' = None"
    and xgb: "map_of xgboost_and_metadata_dir ''xgboost.pkl''
                = Some (Pickle (stub_classifier (1 / 10)))"
    and sc: "map_of xgboost_and_metadata_dir ''standard_scaler.pkl'' = None"
    and md: "map_of xgboost_and_metadata_dir ''metadata.json''
                = Some (Json \<lparr>md_feature_names = Some [''amount'', ''hour''],
                              md_training_date = None, md_model_versions = None\<rparr>)"
    by (simp_all add: xgboost_and_metadata_dir_def)
  have old: "map_of (models forest_and_scaler_loaded) (model_name ''random_forest.pkl'')
                = Some (stub_classifier (9 / 10))"
      "scalers forest_and_scaler_loaded = [(''standard'', stub_scaler)]"
    by (simp_all add: forest_and_scaler_loaded_def model_name_model_files)
  have "map_of (models (snd (load_models (Some xgboost_and_metadata_dir) forest_and_scaler_loaded)))
        (model_name ''random_forest.pkl'') = Some (stub_classifier (9 / 10))"
    using t mem(1) rf old(1) by metis
  moreover
  have "map_of (models (snd (load_models (Some xgboost_and_metadata_dir) forest_and_scaler_loaded)))
        (model_name ''xgboost.pkl'') = Some (stub_classifier (1 / 10))"
    using t mem(2) xgb by metis
  moreover
  have "scalers (snd (load_models (Some xgboost_and_metadata_dir) forest_and_scaler_loaded))
        = [(''standard'', stub_scaler)]"
    using t sc old(2) by metis
  moreover
  have "feature_names (snd (load_models (Some xgboost_and_metadata_dir) forest_and_scaler_loaded))
        = [''amount'', ''hour'']"
    using t md by simp
  ultimately show ?thesis
    using t loadable_example by simp
qed

text \<open>
  Claim C8 as stated fails: a reload against an existing directory without any file keeps
  the model that was loaded before, and reports one loaded model.
\<close>

theorem reload_keeps_model_without_file_counterexample:
  "map_of [] ''random_forest.pkl'' = (None :: file_content option)
   \<and> reload_models (Some []) only_forest_loaded = (Reloaded 1, only_forest_loaded)
   \<and> models only_forest_loaded = [(''random_forest.pkl'', stub_classifier (9 / 10))]"
  by (simp add: reload_models_def load_models_def load_metadata_def model_files_def
      load_scaler_def only_forest_loaded_def)

end
